theory Spec2Isabelle
  imports Complex_Main "HOL-Library.Word"
begin

section \<open>Python values\<close>

text \<open>
  The objects that reach \<^verbatim>\<open>AnomalyDetector\<close> and the stream loop of \<^verbatim>\<open>main.py\<close>.
  A float is a binary64 value: \<open>Fin x\<close> for the finite value that denotes the real \<open>x\<close>,
  or one of the three special values of IEEE 754. The sign of zero is not kept.
\<close>

datatype pyfloat = Fin real | PInf | NInf | NaN

text \<open>
  The numeric classes that the \<^verbatim>\<open>isinstance\<close> tests of the source tell apart:
  \<^verbatim>\<open>int\<close>, its subclass \<^verbatim>\<open>bool\<close>, \<^verbatim>\<open>float\<close> (with its subclass \<^verbatim>\<open>np.float64\<close>), and the
  signed integer scalars of numpy (\<^verbatim>\<open>np.int8\<close> to \<^verbatim>\<open>np.int64\<close>), which are \<^verbatim>\<open>np.number\<close>
  and derive from neither. An \<^verbatim>\<open>int\<close> is taken within 64 bits: numpy builds an
  \<^verbatim>\<open>int64\<close> array from such values, and the deque takes such a capacity. Larger
  integers, and the scalars of numpy that are narrower floats, unsigned or complex, are
  not values of this type.
\<close>

datatype number = PyInt "64 word" | PyBool bool | PyFloat pyfloat | NpInt "64 word"

text \<open>
  The other objects: a row of a two-dimensional float array (what indexing a column
  vector gives), a string and \<^verbatim>\<open>None\<close>. None of them is a number for any of the tests.
\<close>

datatype pyval = Num number | NdArray "pyfloat list" | PyStr string | PyNone

datatype py_error = ValueError string | TypeError string

datatype pyclass = Cint | Cfloat | Cnp_number

fun instance_of :: "number \<Rightarrow> pyclass \<Rightarrow> bool" where
  "instance_of (PyInt _) c = (c = Cint)"
| "instance_of (PyBool _) c = (c = Cint)"
| "instance_of (PyFloat _) c = (c = Cfloat)"
| "instance_of (NpInt _) c = (c = Cnp_number)"

text \<open>
  \<^verbatim>\<open>isinstance(v, classes)\<close>, returning the object at its numeric type when the test
  succeeds.
\<close>

fun isinstance :: "pyval \<Rightarrow> pyclass list \<Rightarrow> number option" where
  "isinstance (Num n) cs = (if \<exists>c \<in> set cs. instance_of n c then Some n else None)"
| "isinstance _ cs = None"

fun int_value :: "number \<Rightarrow> int" where
  "int_value (PyInt i) = sint i"
| "int_value (PyBool b) = (if b then 1 else 0)"
| "int_value (PyFloat _) = 0"
| "int_value (NpInt i) = sint i"

section \<open>Float arithmetic\<close>

text \<open>
  Every arithmetic operation of binary64 returns the exact result rounded to the nearest
  representable value, ties to the even mantissa. A value with binary exponent \<open>e\<close>
  (at least \<open>-1022\<close>: below, the values are subnormal and share that exponent) is a
  multiple of \<open>2 powi (e - 52)\<close>; a result that rounds to \<open>2 ^ 1024\<close> or beyond
  overflows to an infinity.
\<close>

definition round_half_even :: "real \<Rightarrow> int" where
  "round_half_even q =
     (let f = \<lfloor>q\<rfloor>
      in if q - of_int f < 1 / 2 then f
         else if 1 / 2 < q - of_int f then f + 1
         else if even f then f else f + 1)"

definition round64 :: "real \<Rightarrow> pyfloat" where
  "round64 x =
     (if x = 0 then Fin 0
      else
        (let e = max \<lfloor>log 2 \<bar>x\<bar>\<rfloor> (- 1022);
             u = 2 powi (e - 52);
             y = of_int (round_half_even (x / u)) * u
         in if 2 ^ 1024 \<le> \<bar>y\<bar> then (if 0 < x then PInf else NInf) else Fin y))"

text \<open>
  The float that numpy makes of a number when it builds an array from the window, and
  that Python makes of it in mixed arithmetic. A 64-bit integer beyond 53 bits is
  rounded.
\<close>

fun float_of :: "number \<Rightarrow> pyfloat" where
  "float_of (PyInt i) = round64 (of_int (sint i))"
| "float_of (PyBool b) = Fin (if b then 1 else 0)"
| "float_of (PyFloat x) = x"
| "float_of (NpInt i) = round64 (of_int (sint i))"

fun fneg :: "pyfloat \<Rightarrow> pyfloat" where
  "fneg (Fin a) = Fin (- a)"
| "fneg PInf = NInf"
| "fneg NInf = PInf"
| "fneg NaN = NaN"

fun fadd :: "pyfloat \<Rightarrow> pyfloat \<Rightarrow> pyfloat" where
  "fadd (Fin a) (Fin b) = round64 (a + b)"
| "fadd NaN _ = NaN"
| "fadd _ NaN = NaN"
| "fadd PInf NInf = NaN"
| "fadd NInf PInf = NaN"
| "fadd PInf _ = PInf"
| "fadd _ PInf = PInf"
| "fadd NInf _ = NInf"
| "fadd _ NInf = NInf"

definition fsub :: "pyfloat \<Rightarrow> pyfloat \<Rightarrow> pyfloat" where
  "fsub x y = fadd x (fneg y)"

fun fsgn :: "pyfloat \<Rightarrow> int" where
  "fsgn (Fin a) = (if a = 0 then 0 else if 0 < a then 1 else -1)"
| "fsgn PInf = 1"
| "fsgn NInf = -1"
| "fsgn NaN = 0"

fun fmul :: "pyfloat \<Rightarrow> pyfloat \<Rightarrow> pyfloat" where
  "fmul (Fin a) (Fin b) = round64 (a * b)"
| "fmul NaN _ = NaN"
| "fmul _ NaN = NaN"
| "fmul x y =
     (let s = fsgn x * fsgn y in if s = 0 then NaN else if 0 < s then PInf else NInf)"

text \<open>
  Division of floats never raises in numpy. A zero divisor is taken as \<open>+0\<close>; the detector
  never divides by zero (the count of a mean is positive and a zero deviation is tested
  before the division).
\<close>

fun fdiv :: "pyfloat \<Rightarrow> pyfloat \<Rightarrow> pyfloat" where
  "fdiv (Fin a) (Fin b) =
     (if b = 0 then (if a = 0 then NaN else if 0 < a then PInf else NInf)
      else round64 (a / b))"
| "fdiv NaN _ = NaN"
| "fdiv _ NaN = NaN"
| "fdiv (Fin a) _ = Fin 0"
| "fdiv PInf (Fin b) = (if 0 \<le> b then PInf else NInf)"
| "fdiv NInf (Fin b) = (if 0 \<le> b then NInf else PInf)"
| "fdiv _ _ = NaN"

fun fsqrt :: "pyfloat \<Rightarrow> pyfloat" where
  "fsqrt (Fin a) = (if a < 0 then NaN else round64 (sqrt a))"
| "fsqrt PInf = PInf"
| "fsqrt NInf = NaN"
| "fsqrt NaN = NaN"

fun fabs :: "pyfloat \<Rightarrow> pyfloat" where
  "fabs (Fin a) = Fin \<bar>a\<bar>"
| "fabs PInf = PInf"
| "fabs NInf = PInf"
| "fabs NaN = NaN"

text \<open>\<^verbatim>\<open>x > y\<close>: false as soon as one side is NaN.\<close>

fun fgt :: "pyfloat \<Rightarrow> pyfloat \<Rightarrow> bool" where
  "fgt (Fin a) (Fin b) = (b < a)"
| "fgt NaN _ = False"
| "fgt _ NaN = False"
| "fgt PInf PInf = False"
| "fgt PInf _ = True"
| "fgt NInf _ = False"
| "fgt (Fin a) NInf = True"
| "fgt (Fin a) PInf = False"

text \<open>\<^verbatim>\<open>x == 0\<close>.\<close>

fun feq0 :: "pyfloat \<Rightarrow> bool" where
  "feq0 (Fin a) = (a = 0)"
| "feq0 _ = False"

section \<open>numpy statistics\<close>

text \<open>
  The sum of a float array as numpy's \<^verbatim>\<open>add.reduce\<close> takes it (the pairwise sum of
  \<^verbatim>\<open>loops_utils.h\<close>): fewer than 8 items are added one by one from 0; up to 128 items are
  added into 8 accumulators, block of 8 after block of 8, the accumulators are added as a
  tree and the last \<open>n mod 8\<close> items one by one; a longer array is cut in two (the first
  part a multiple of 8) and the sums of the parts are added. A window that holds
  integers only is cast to floats on the way, through a buffer of 8192 items, and numpy
  adds the sums of the successive buffers: the definition is the sum of numpy for every
  window with a float, and for a window of integers of at most 8192 items.
\<close>

function accumulate8 :: "pyfloat list \<Rightarrow> pyfloat list \<Rightarrow> pyfloat list \<times> pyfloat list" where
  "accumulate8 r xs =
     (if length xs < 8 then (r, xs)
      else accumulate8 (map2 fadd r (take 8 xs)) (drop 8 xs))"
  by pat_completeness auto
termination
  by (relation "measure (\<lambda>(r, xs). length xs)") auto

definition block_sum :: "pyfloat list \<Rightarrow> pyfloat" where
  "block_sum a =
     (let (r, rest) = accumulate8 (take 8 a) (drop 8 a);
          res = fadd (fadd (fadd (r ! 0) (r ! 1)) (fadd (r ! 2) (r ! 3)))
                     (fadd (fadd (r ! 4) (r ! 5)) (fadd (r ! 6) (r ! 7)))
      in foldl fadd res rest)"

definition first_half :: "nat \<Rightarrow> nat" where
  "first_half n = n div 2 - (n div 2) mod 8"

function pairwise_sum :: "pyfloat list \<Rightarrow> pyfloat" where
  "pairwise_sum a =
     (if length a < 8 then foldl fadd (Fin 0) a
      else if length a \<le> 128 then block_sum a
      else fadd (pairwise_sum (take (first_half (length a)) a))
                (pairwise_sum (drop (first_half (length a)) a)))"
  by pat_completeness auto
termination
  by (relation "measure length") (auto simp: first_half_def)

text \<open>
  \<^verbatim>\<open>np.mean\<close> and \<^verbatim>\<open>np.std\<close> over the window converted to a float array:
  the sum divided by the count, and the square root of the mean of the squared
  deviations from that mean (\<^verbatim>\<open>ddof=0\<close>, the default: the population statistics).
\<close>

definition np_sum :: "pyfloat list \<Rightarrow> pyfloat" where
  "np_sum xs = pairwise_sum xs"

definition np_mean :: "pyfloat list \<Rightarrow> pyfloat" where
  "np_mean xs = fdiv (np_sum xs) (Fin (real (length xs)))"

definition np_std :: "pyfloat list \<Rightarrow> pyfloat" where
  "np_std xs =
     (let arrmean = np_mean xs;
          x = map (\<lambda>a. fsub a arrmean) xs;
          x2 = map (\<lambda>d. fmul d d) x
      in fsqrt (fdiv (np_sum x2) (Fin (real (length xs)))))"

section \<open>The detector\<close>

text \<open>\<^verbatim>\<open>collections.deque(maxlen=n)\<close>: appending to a full deque drops the leftmost item.\<close>

record deque =
  items :: "number list"
  maxlen :: int

definition deque_append :: "deque \<Rightarrow> number \<Rightarrow> deque" where
  "deque_append d x =
     (let xs = items d @ [x]
      in d\<lparr>items := (if maxlen d < int (length xs) then tl xs else xs)\<rparr>)"

record AnomalyDetector =
  threshold :: number
  window_size :: int
  data_window :: deque
  anomalies_count :: int

text \<open>
  \<^verbatim>\<open>AnomalyDetector.__init__\<close> (lines 49-66). Both checks raise \<^verbatim>\<open>ValueError\<close>;
  the comparison \<^verbatim>\<open>window_size <= 0\<close> is evaluated only for an \<^verbatim>\<open>int\<close>.
\<close>

definition AnomalyDetector_init :: "pyval \<Rightarrow> pyval \<Rightarrow> py_error + AnomalyDetector" where
  "AnomalyDetector_init thr wsz =
     (case isinstance thr [Cint, Cfloat] of
        None \<Rightarrow> Inl (ValueError ''Threshold must be a numeric value.'')
      | Some t \<Rightarrow>
          (case isinstance wsz [Cint] of
             None \<Rightarrow> Inl (ValueError ''Window size must be a positive integer.'')
           | Some w \<Rightarrow>
               if int_value w \<le> 0
               then Inl (ValueError ''Window size must be a positive integer.'')
               else Inr \<lparr>threshold = t,
                         window_size = int_value w,
                         data_window = \<lparr>items = [], maxlen = int_value w\<rparr>,
                         anomalies_count = 0\<rparr>))"

text \<open>
  \<^verbatim>\<open>AnomalyDetector.add_data_point\<close> (lines 68-100). The result pairs what the call
  returns or raises with the detector as the call leaves it: an exception does not undo
  a mutation that happened before it.
\<close>

definition add_data_point :: "AnomalyDetector \<Rightarrow> pyval \<Rightarrow> (py_error + bool) \<times> AnomalyDetector" where
  "add_data_point self val =
     (case isinstance val [Cint, Cfloat, Cnp_number] of
        None \<Rightarrow> (Inl (ValueError ''Data point must be a numeric value.''), self)
      | Some v \<Rightarrow>
          (let self1 = self\<lparr>data_window := deque_append (data_window self) v\<rparr>
           in if int (length (items (data_window self1))) < window_size self1
              then (Inr False, self1)
              else
                (let w = map float_of (items (data_window self1));
                     mean = np_mean w;
                     std_dev = np_std w
                 in if feq0 std_dev
                    then (Inr False, self1)
                    else
                      (let z_score = fdiv (fsub (float_of v) mean) std_dev;
                           is_anomaly = fgt (fabs z_score) (float_of (threshold self1))
                       in if is_anomaly
                          then (Inr True, self1\<lparr>anomalies_count := anomalies_count self1 + 1\<rparr>)
                          else (Inr False, self1)))))"

text \<open>A sequence of calls on one detector, each outcome recorded in call order.\<close>

fun add_data_points :: "AnomalyDetector \<Rightarrow> pyval list \<Rightarrow> (py_error + bool) list \<times> AnomalyDetector" where
  "add_data_points self [] = ([], self)"
| "add_data_points self (v # vs) =
     (let (r, self1) = add_data_point self v;
          (rs, self2) = add_data_points self1 vs
      in (r # rs, self2))"

text \<open>A fresh detector fed a sequence of values, or the error of its construction.\<close>

definition fresh_run ::
  "pyval \<Rightarrow> pyval \<Rightarrow> pyval list \<Rightarrow> py_error + (py_error + bool) list \<times> AnomalyDetector" where
  "fresh_run thr wsz vs =
     (case AnomalyDetector_init thr wsz of
        Inl e \<Rightarrow> Inl e
      | Inr self \<Rightarrow> Inr (add_data_points self vs))"

text \<open>
  The sequence of the end-to-end scenario of the specification, to be fed to a detector
  with \<^verbatim>\<open>window_size=4\<close> and \<^verbatim>\<open>threshold=2.0\<close>.
\<close>

definition scenario_values :: "pyval list" where
  "scenario_values =
     [Num (PyInt 1), Num (PyInt 1), Num (PyInt 1), Num (PyInt 1), Num (PyInt 1),
      Num (PyInt 1), Num (PyInt 1), Num (PyInt 1), Num (PyInt 100)]"

text \<open>
  The float \<^verbatim>\<open>0.1\<close> of Python (the binary64 value nearest to one tenth), and a stream
  that repeats it.
\<close>

definition one_tenth :: real where
  "one_tenth = 3602879701896397 / 36028797018963968"

definition constant_values :: "pyval list" where
  "constant_values =
     [Num (PyFloat (Fin one_tenth)), Num (PyFloat (Fin one_tenth)),
      Num (PyFloat (Fin one_tenth))]"

section \<open>The stream loop\<close>

text \<open>
  \<^verbatim>\<open>update(frame)\<close> inside \<^verbatim>\<open>plot_data_stream_realtime\<close> (lines 128-161). What the loop
  shows is kept as data: the lines printed to the terminal, the x-axis limits and the
  text of the anomaly counter. The format specification \<^verbatim>\<open>.2f\<close> of the printed line raises
  for an array that is not zero-dimensional and for \<^verbatim>\<open>None\<close> (\<^verbatim>\<open>TypeError\<close>), and for a
  \<^verbatim>\<open>str\<close> (\<^verbatim>\<open>ValueError\<close>).
\<close>

datatype report = Report nat pyval bool

record stream_plot =
  data :: "pyval list"
  anomaly_indices :: "nat list"
  detector :: AnomalyDetector
  printed :: "report list"
  xlim :: "nat \<times> nat"
  anomaly_count_text :: "int option"
  stopped :: bool

fun format_2f :: "pyval \<Rightarrow> py_error option" where
  "format_2f (Num _) = None"
| "format_2f (NdArray _) =
     Some (TypeError ''unsupported format string passed to numpy.ndarray.__format__'')"
| "format_2f (PyStr _) = Some (ValueError ''Unknown format code f for object of type str'')"
| "format_2f PyNone = Some (TypeError ''unsupported format string passed to NoneType.__format__'')"

definition buffer :: nat where
  "buffer = 200"

text \<open>
  The \<^verbatim>\<open>try\<close> statement catches \<^verbatim>\<open>ValueError\<close> only. The result pairs the exception that
  leaves \<^verbatim>\<open>update\<close>, if any, with the state at that point.
\<close>

definition update :: "pyval list \<Rightarrow> stream_plot \<Rightarrow> nat \<Rightarrow> py_error option \<times> stream_plot" where
  "update data_stream st frame =
     (if length data_stream \<le> frame
      then (None, st\<lparr>stopped := True\<rparr>)
      else
        (let val = data_stream ! frame;
             st1 = st\<lparr>data := data st @ [val]\<rparr>;
             (res, det) = add_data_point (detector st1) val;
             st2 = st1\<lparr>detector := det\<rparr>
         in case res of
              Inl (TypeError m) \<Rightarrow> (Some (TypeError m), st2)
            | _ \<Rightarrow>
                (let is_anomaly = (case res of Inr b \<Rightarrow> b | Inl _ \<Rightarrow> False);
                     st3 = (if is_anomaly
                            then st2\<lparr>anomaly_indices := anomaly_indices st2 @ [frame]\<rparr>
                            else st2)
                 in case format_2f val of
                      Some e \<Rightarrow> (Some e, st3)
                    | None \<Rightarrow>
                        (None,
                         st3\<lparr>printed := printed st3 @ [Report frame val is_anomaly],
                             xlim := (if frame < buffer then (0, buffer) else (frame - buffer, frame)),
                             anomaly_count_text := Some (anomalies_count (detector st3))\<rparr>))))"

text \<open>
  A column vector: the two-dimensional array \<^verbatim>\<open>np.array([[1.0], [2.0], [3.0]])\<close>. Its
  length is 3, \<^verbatim>\<open>np.min\<close> and \<^verbatim>\<open>np.max\<close> of line 119 are 1.0 and 3.0, and indexing it with
  a frame gives a row, an array of one item.
\<close>

definition column_vector :: "pyval list" where
  "column_vector = [NdArray [Fin 1], NdArray [Fin 2], NdArray [Fin 3]]"

text \<open>The state of the loop before the first frame (lines 117, 125 and 126).\<close>

definition first_frame_state :: "pyval list \<Rightarrow> AnomalyDetector \<Rightarrow> stream_plot" where
  "first_frame_state data_stream det =
     \<lparr>data = [], anomaly_indices = [], detector = det, printed = [],
      xlim = (0, length data_stream), anomaly_count_text = None, stopped = False\<rparr>"

section \<open>Notions of the specification\<close>

text \<open>A numeric value, and a finite one.\<close>

fun is_numeric :: "pyval \<Rightarrow> bool" where
  "is_numeric (Num _) = True"
| "is_numeric _ = False"

fun finite_numeric :: "pyval \<Rightarrow> bool" where
  "finite_numeric (Num (PyInt _)) = True"
| "finite_numeric (Num (PyBool _)) = True"
| "finite_numeric (Num (PyFloat x)) = (case x of Fin _ \<Rightarrow> True | _ \<Rightarrow> False)"
| "finite_numeric (Num (NpInt _)) = True"
| "finite_numeric _ = False"

text \<open>
  What the two tests of the constructor let through (lines 57 and 59): an object whose
  class is \<^verbatim>\<open>int\<close> or \<^verbatim>\<open>float\<close> as threshold, and an \<^verbatim>\<open>int\<close> greater than zero as window
  size (\<^verbatim>\<open>True\<close> is the \<^verbatim>\<open>int\<close> 1 in Python). A numpy integer passes neither test.
\<close>

fun int_or_float :: "pyval \<Rightarrow> bool" where
  "int_or_float (Num (PyInt _)) = True"
| "int_or_float (Num (PyBool _)) = True"
| "int_or_float (Num (PyFloat _)) = True"
| "int_or_float _ = False"

fun positive_integer :: "pyval \<Rightarrow> bool" where
  "positive_integer (Num (PyInt i)) = (0 < sint i)"
| "positive_integer (Num (PyBool b)) = b"
| "positive_integer _ = False"






text \<open>
  The contents of the window, and the invariant of the class: the capacity is positive,
  the deque was built with it, and the deque holds at most that many values.
\<close>

definition window :: "AnomalyDetector \<Rightarrow> number list" where
  "window self = items (data_window self)"

definition window_inv :: "AnomalyDetector \<Rightarrow> bool" where
  "window_inv self =
     (0 < window_size self \<and> maxlen (data_window self) = window_size self \<and>
      int (length (window self)) \<le> window_size self)"

section \<open>Rounding\<close>

lemma floor_log2_eq:
  fixes x :: real
  assumes "2 powi e \<le> x" and "x < 2 powi (e + 1)"
  shows "\<lfloor>log 2 x\<rfloor> = e"
proof -
  have pos: "0 < x" using assms(1) by (smt (verit) zero_less_power_int zero_less_numeral)
  have "2 powr (of_int e) = (2::real) powi e" "2 powr (of_int (e + 1)) = (2::real) powi (e + 1)"
    by (simp_all add: powr_real_of_int' del: of_int_add)
  then have "2 powr (of_int e) \<le> x" "x < 2 powr (of_int e + 1)"
    using assms by simp_all
  then show ?thesis
    using pos by (simp add: floor_log_eq_powr_iff)
qed

lemma round64_eval:
  assumes "2 powi e \<le> \<bar>x\<bar>" and "\<bar>x\<bar> < 2 powi (e + 1)" and "- 1022 \<le> e"
      and "u = 2 powi (e - 52)"
      and "round_half_even (x / u) = n"
      and "\<bar>of_int n * u\<bar> < 2 ^ 1024"
  shows "round64 x = Fin (of_int n * u)"
proof -
  have "x \<noteq> 0" using assms(1) by (smt (verit) zero_less_power_int zero_less_numeral abs_zero)
  moreover have "\<lfloor>log 2 \<bar>x\<bar>\<rfloor> = e" by (rule floor_log2_eq [OF assms(1,2)])
  ultimately show ?thesis
    using assms(3-6) by (simp add: round64_def Let_def max_def)
qed

lemma round_half_even_of_int: "round_half_even (of_int n) = n"
  by (simp add: round_half_even_def)

lemma round64_exact:
  assumes "2 powi e \<le> \<bar>x\<bar>" and "\<bar>x\<bar> < 2 powi (e + 1)" and "- 1022 \<le> e" and "e < 1024"
      and "x / 2 powi (e - 52) = of_int n"
  shows "round64 x = Fin x"
proof -
  have u: "(2::real) powi (e - 52) \<noteq> 0" by simp
  have "round_half_even (x / 2 powi (e - 52)) = n"
    unfolding assms(5) by (rule round_half_even_of_int)
  moreover have y: "of_int n * 2 powi (e - 52) = x"
    using assms(5) u by (simp add: field_simps)
  moreover have "(2::real) powi (e + 1) \<le> 2 powi 1024"
    using assms(4) by (intro power_int_increasing) simp_all
  then have "\<bar>x\<bar> < 2 ^ 1024" using assms(2) by simp
  ultimately show ?thesis
    using round64_eval [OF assms(1,2,3) refl, of n] by simp
qed

lemma floor_log2_bounds:
  fixes x :: real
  assumes "0 < x"
  shows "2 powi \<lfloor>log 2 x\<rfloor> \<le> x" and "x < 2 powi (\<lfloor>log 2 x\<rfloor> + 1)"
proof -
  have "2 powr (of_int \<lfloor>log 2 x\<rfloor>) \<le> x \<and> x < 2 powr (of_int \<lfloor>log 2 x\<rfloor> + 1)"
    using assms floor_log_eq_powr_iff [of x 2 "\<lfloor>log 2 x\<rfloor>"] by simp
  moreover have "2 powr (of_int \<lfloor>log 2 x\<rfloor>) = (2::real) powi \<lfloor>log 2 x\<rfloor>"
    "2 powr (of_int (\<lfloor>log 2 x\<rfloor> + 1)) = (2::real) powi (\<lfloor>log 2 x\<rfloor> + 1)"
    by (simp_all add: powr_real_of_int' del: of_int_add)
  ultimately show "2 powi \<lfloor>log 2 x\<rfloor> \<le> x" and "x < 2 powi (\<lfloor>log 2 x\<rfloor> + 1)"
    by simp_all
qed

lemma round64_dyadic:
  assumes "\<bar>m\<bar> < 2 ^ 53" and "k \<le> 1022"
  shows "round64 (of_int m / 2 ^ k) = Fin (of_int m / 2 ^ k)"
proof (cases "m = 0")
  case True
  then show ?thesis by (simp add: round64_def)
next
  case False
  define a :: real where "a = \<bar>of_int m\<bar>"
  define b where "b = \<lfloor>log 2 a\<rfloor>"
  have a1: "1 \<le> a" using False by (simp add: a_def)
  have a53: "a < 2 ^ 53"
    using assms(1) unfolding a_def
    by (metis of_int_abs of_int_less_iff of_int_numeral of_int_power)
  have lo: "2 powi b \<le> a" and hi: "a < 2 powi (b + 1)"
    using floor_log2_bounds [of a] a1 by (simp_all add: b_def)
  have b0: "0 \<le> b" using a1 by (simp add: b_def)
  have b52: "b \<le> 52"
  proof (rule ccontr)
    assume "\<not> b \<le> 52"
    then have "(2::real) powi 53 \<le> 2 powi b" by (intro power_int_increasing) simp_all
    with lo a53 show False by simp
  qed
  let ?x = "of_int m / (2::real) ^ k"
  let ?e = "b - int k"
  have absx: "\<bar>?x\<bar> = a / 2 ^ k" by (simp add: a_def)
  have p: "(2::real) powi ?e = 2 powi b / 2 ^ k"
    by (simp add: power_int_diff)
  have p1: "(2::real) powi (?e + 1) = 2 powi (b + 1) / 2 ^ k"
    using power_int_diff [of "2::real" "b + 1" "int k"] by (simp add: algebra_simps)
  have c1: "2 powi ?e \<le> \<bar>?x\<bar>"
    unfolding absx p using lo by (simp add: divide_right_mono)
  have c2: "\<bar>?x\<bar> < 2 powi (?e + 1)"
    unfolding absx p1 using hi by (simp add: divide_strict_right_mono)
  have c3: "- 1022 \<le> ?e" using b0 assms(2) by simp
  have c4: "?e < 1024" using b52 by simp
  have sh: "(2::real) powi (?e - 52) = 2 powi b / (2 ^ k * 2 ^ 52)"
    using power_int_diff [of "2::real" "b" "int k + 52"]
    by (simp add: algebra_simps power_int_add)
  have nb: "(2::real) powi b = 2 ^ nat b" using b0 by (simp add: power_int_def)
  have "(2::real) ^ 52 = 2 ^ nat b * 2 ^ nat (52 - b)"
    using b0 b52 by (simp add: power_add [symmetric] nat_add_distrib [symmetric])
  then have c5: "?x / 2 powi (?e - 52) = of_int (m * 2 ^ nat (52 - b))"
    unfolding sh nb by (simp add: field_simps)
  show ?thesis by (rule round64_exact [OF c1 c2 c3 c4 c5])
qed

lemma round64_zero: "round64 0 = Fin 0"
  by (simp add: round64_def)

lemma round64_of_int: "\<bar>m\<bar> < 2 ^ 53 \<Longrightarrow> round64 (of_int m) = Fin (of_int m)"
  using round64_dyadic [of m 0] by simp

lemmas round64_small =
  round64_zero
  round64_of_int [of 1, simplified]
  round64_of_int [of "- 1", simplified]
  round64_of_int [of "numeral n", simplified] 
  round64_of_int [of "- numeral n", simplified] for n

section \<open>The sum of a short array\<close>

lemma np_sum_small: "length xs < 8 \<Longrightarrow> np_sum xs = foldl fadd (Fin 0) xs"
  by (simp add: np_sum_def)

lemma accumulate8_done: "length xs < 8 \<Longrightarrow> accumulate8 r xs = (r, xs)"
  by simp

lemma np_sum_block:
  "8 \<le> length xs \<Longrightarrow> length xs \<le> 128 \<Longrightarrow> np_sum xs = block_sum xs"
  by (simp add: np_sum_def)

section \<open>Steps of the detector\<close>

lemma isinstance_data_point:
  "isinstance val [Cint, Cfloat, Cnp_number] = (case val of Num n \<Rightarrow> Some n | _ \<Rightarrow> None)"
proof (cases val)
  case (Num n)
  then show ?thesis by (cases n) simp_all
qed simp_all

lemma add_data_point_rejects:
  "\<not> is_numeric val \<Longrightarrow>
   add_data_point self val = (Inl (ValueError ''Data point must be a numeric value.''), self)"
  by (cases val) (simp_all add: add_data_point_def isinstance_data_point)

lemma add_data_point_result_cases:
  "fst (add_data_point self (Num v)) = Inr True \<or> fst (add_data_point self (Num v)) = Inr False"
  by (simp add: add_data_point_def isinstance_data_point Let_def)

lemma add_data_point_state:
  "snd (add_data_point self (Num v)) =
     self\<lparr>data_window := deque_append (data_window self) v,
          anomalies_count :=
            anomalies_count self + (if fst (add_data_point self (Num v)) = Inr True then 1 else 0)\<rparr>"
  by (simp add: add_data_point_def isinstance_data_point Let_def)

lemma deque_append_items:
  "items (deque_append d x) =
     (if maxlen d < int (length (items d)) + 1 then tl (items d @ [x]) else items d @ [x])"
  by (simp add: deque_append_def Let_def)

lemma deque_append_maxlen: "maxlen (deque_append d x) = maxlen d"
  by (simp add: deque_append_def Let_def)

lemma window_after_append:
  "window (snd (add_data_point self (Num v))) =
     (if maxlen (data_window self) < int (length (window self)) + 1
      then tl (window self @ [v]) else window self @ [v])"
  by (simp add: add_data_point_state window_def deque_append_items)

lemma add_data_point_frame:
  "window_size (snd (add_data_point self val)) = window_size self"
  "threshold (snd (add_data_point self val)) = threshold self"
  "maxlen (data_window (snd (add_data_point self val))) = maxlen (data_window self)"
  by (cases val; simp add: add_data_point_state add_data_point_rejects deque_append_maxlen)+

lemma add_data_point_count:
  "anomalies_count (snd (add_data_point self val)) =
     anomalies_count self + (if fst (add_data_point self val) = Inr True then 1 else 0)"
  by (cases val) (simp_all add: add_data_point_state add_data_point_rejects)

lemma add_data_point_inv:
  assumes "window_inv self"
  shows "window_inv (snd (add_data_point self val))"
proof (cases val)
  case (Num v)
  with assms show ?thesis
    by (auto simp: window_inv_def add_data_point_frame window_after_append)
next
  case (NdArray x)
  with assms show ?thesis by (simp add: add_data_point_rejects)
next
  case (PyStr s)
  with assms show ?thesis by (simp add: add_data_point_rejects)
next
  case PyNone
  with assms show ?thesis by (simp add: add_data_point_rejects)
qed

lemma init_cases:
  "AnomalyDetector_init thr wsz = Inr self \<Longrightarrow>
     window_inv self \<and> window self = [] \<and> anomalies_count self = 0"
  by (auto simp: AnomalyDetector_init_def window_inv_def window_def
           split: option.splits if_splits)

lemma add_data_points_snoc:
  "add_data_points self (vs @ [v]) =
     (fst (add_data_points self vs) @ [fst (add_data_point (snd (add_data_points self vs)) v)],
      snd (add_data_point (snd (add_data_points self vs)) v))"
  by (induction vs arbitrary: self) (simp_all add: split_beta Let_def)

lemma add_data_points_inv:
  "window_inv self \<Longrightarrow> window_inv (snd (add_data_points self vs))"
  by (induction vs arbitrary: self) (simp_all add: split_beta Let_def add_data_point_inv)

lemma add_data_points_frame:
  "window_size (snd (add_data_points self vs)) = window_size self"
  "threshold (snd (add_data_points self vs)) = threshold self"
  by (induction vs arbitrary: self; simp add: split_beta Let_def add_data_point_frame)+

lemma add_data_points_count:
  "anomalies_count (snd (add_data_points self vs)) =
     anomalies_count self + int (count_list (fst (add_data_points self vs)) (Inr True))"
  by (induction vs arbitrary: self) (simp_all add: split_beta Let_def add_data_point_count)

lemma add_data_points_length: "length (fst (add_data_points self vs)) = length vs"
  by (induction vs arbitrary: self) (simp_all add: split_beta Let_def)

lemma window_step:
  assumes "window_inv self"
  shows "window (snd (add_data_point self (Num v))) =
           (if int (length (window self)) = window_size self
            then tl (window self) @ [v] else window self @ [v])"
proof -
  have "int (length (window self)) = window_size self \<Longrightarrow> window self \<noteq> []"
    using assms by (auto simp: window_inv_def)
  then show ?thesis
    using assms by (auto simp: window_after_append window_inv_def)
qed

lemma window_length_step:
  assumes "window_inv self"
  shows "int (length (window (snd (add_data_point self (Num v))))) =
           min (window_size self) (int (length (window self)) + 1)"
  using assms by (auto simp: window_after_append window_inv_def)

lemma add_data_point_warm_up:
  assumes "maxlen (data_window self) = window_size self"
      and "int (length (window self)) + 1 < window_size self"
  shows "fst (add_data_point self (Num v)) = Inr False"
    and "window (snd (add_data_point self (Num v))) = window self @ [v]"
  using assms
  by (simp_all add: add_data_point_def isinstance_data_point Let_def window_def deque_append_def)

lemma warm_up_run:
  assumes "window_inv self"
      and "\<forall>v \<in> set vs. is_numeric v"
      and "int (length (window self)) + int (length vs) < window_size self"
  shows "fst (add_data_points self vs) = replicate (length vs) (Inr False)"
  using assms
proof (induction vs arbitrary: self)
  case Nil
  then show ?case by simp
next
  case (Cons val vs)
  then obtain v where v: "val = Num v" by (cases val) simp_all
  let ?s = "snd (add_data_point self (Num v))"
  have m: "maxlen (data_window self) = window_size self"
    using Cons.prems(1) by (simp add: window_inv_def)
  have small: "int (length (window self)) + 1 < window_size self"
    using Cons.prems(3) by simp
  have r: "fst (add_data_point self (Num v)) = Inr False"
    and w: "window ?s = window self @ [v]"
    using add_data_point_warm_up [OF m small] by simp_all
  have "fst (add_data_points ?s vs) = replicate (length vs) (Inr False)"
  proof (rule Cons.IH)
    show "window_inv ?s" by (rule add_data_point_inv [OF Cons.prems(1)])
    show "\<forall>v \<in> set vs. is_numeric v" using Cons.prems(2) by simp
    show "int (length (window ?s)) + int (length vs) < window_size ?s"
      using Cons.prems(3) w by (simp add: add_data_point_frame)
  qed
  with r show ?case by (simp add: v split_beta Let_def)
qed

lemma take_add_data_points:
  "take n (fst (add_data_points self vs)) = fst (add_data_points self (take n vs))"
proof (induction vs arbitrary: self n)
  case Nil
  then show ?case by simp
next
  case (Cons v vs)
  then show ?case by (cases n) (simp_all add: split_beta Let_def)
qed

lemma init_reject_threshold:
  "\<not> int_or_float thr \<Longrightarrow>
     AnomalyDetector_init thr wsz = Inl (ValueError ''Threshold must be a numeric value.'')"
  by (cases thr rule: int_or_float.cases) (simp_all add: AnomalyDetector_init_def)

lemma int_or_float_isinstance:
  "int_or_float thr \<Longrightarrow> \<exists>t. thr = Num t \<and> isinstance thr [Cint, Cfloat] = Some t"
  by (cases thr rule: int_or_float.cases) simp_all

lemma init_reject_window_size:
  assumes "int_or_float thr" and "\<not> positive_integer wsz"
  shows "AnomalyDetector_init thr wsz = Inl (ValueError ''Window size must be a positive integer.'')"
proof -
  obtain t where "isinstance thr [Cint, Cfloat] = Some t"
    using int_or_float_isinstance [OF assms(1)] by blast
  with assms(2) show ?thesis
    by (cases wsz rule: positive_integer.cases) (simp_all add: AnomalyDetector_init_def)
qed

lemma init_accepts:
  assumes "int_or_float thr" and "positive_integer wsz"
  shows "\<exists>t w. thr = Num t \<and> wsz = Num w \<and> 0 < int_value w \<and>
         AnomalyDetector_init thr wsz =
           Inr \<lparr>threshold = t, window_size = int_value w,
                data_window = \<lparr>items = [], maxlen = int_value w\<rparr>,
                anomalies_count = 0\<rparr>"
proof -
  obtain t where t: "thr = Num t" "isinstance thr [Cint, Cfloat] = Some t"
    using int_or_float_isinstance [OF assms(1)] by blast
  obtain w where w: "wsz = Num w" "isinstance wsz [Cint] = Some w" "0 < int_value w"
    using assms(2) by (cases wsz rule: positive_integer.cases) simp_all
  have "AnomalyDetector_init thr wsz =
           Inr \<lparr>threshold = t, window_size = int_value w,
                data_window = \<lparr>items = [], maxlen = int_value w\<rparr>,
                anomalies_count = 0\<rparr>"
    using t(2) w(2,3) by (simp add: AnomalyDetector_init_def)
  with t(1) w(1,3) show ?thesis by blast
qed

section \<open>Degenerate statistics\<close>

lemma fdiv_NaN_right: "fdiv x NaN = NaN"
  by (cases x) simp_all


lemma degenerate_std_is_not_anomaly:
  assumes "feq0 (np_std (map float_of (window (snd (add_data_point self (Num v)))))) \<or>
           np_std (map float_of (window (snd (add_data_point self (Num v))))) = NaN"
  shows "fst (add_data_point self (Num v)) = Inr False"
proof -
  have w: "window (snd (add_data_point self (Num v))) = items (deque_append (data_window self) v)"
    by (simp add: add_data_point_state window_def)
  show ?thesis
    using assms unfolding w
    by (auto simp: add_data_point_def isinstance_data_point Let_def fdiv_NaN_right)
qed

section \<open>Evaluation on concrete data\<close>

text \<open>Rounding when the exact result is close to an integer multiple of the unit.\<close>

lemma round_half_even_near:
  assumes "of_int n - 1 / 2 < q" and "q < of_int n + 1 / 2"
  shows "round_half_even q = n"
proof (cases "of_int n \<le> q")
  case True
  then have "\<lfloor>q\<rfloor> = n" using assms(2) by linarith
  then show ?thesis using assms(2) by (simp add: round_half_even_def)
next
  case False
  then have "\<lfloor>q\<rfloor> = n - 1" using assms(1) by linarith
  then show ?thesis using assms(1) False by (simp add: round_half_even_def)
qed

lemma round64_sqrt_eval:
  assumes "(2 powi e)\<^sup>2 \<le> a" and "a < (2 powi (e + 1))\<^sup>2" and "- 1022 \<le> e"
      and "u = 2 powi (e - 52)" and "0 < n"
      and "((of_int n - 1 / 2) * u)\<^sup>2 < a" and "a < ((of_int n + 1 / 2) * u)\<^sup>2"
      and "of_int n * u < 2 ^ 1024"
  shows "round64 (sqrt a) = Fin (of_int n * u)"
proof -
  have upos: "0 < u" unfolding assms(4) by simp
  have apos: "0 \<le> a" using assms(1) by (smt (verit) zero_le_power2)
  have lo: "2 powi e \<le> \<bar>sqrt a\<bar>"
    using assms(1) apos by (simp add: real_le_rsqrt)
  have hi: "\<bar>sqrt a\<bar> < 2 powi (e + 1)"
    using assms(2) apos by (simp add: real_less_lsqrt)
  have npos: "0 \<le> (of_int n - 1 / 2) * u" using assms(5) upos by simp
  have "(of_int n - 1 / 2) * u < sqrt a"
    using assms(6) npos by (simp add: real_less_rsqrt)
  then have q1: "of_int n - 1 / 2 < sqrt a / u"
    using upos by (simp add: pos_less_divide_eq)
  have "0 \<le> (of_int n + 1 / 2) * u" using assms(5) upos by simp
  then have "sqrt a < (of_int n + 1 / 2) * u"
    using assms(7) apos by (simp add: real_less_lsqrt)
  then have q2: "sqrt a / u < of_int n + 1 / 2"
    using upos by (simp add: pos_divide_less_eq)
  have r: "round_half_even (sqrt a / u) = n" by (rule round_half_even_near [OF q1 q2])
  have b: "\<bar>of_int n * u\<bar> < 2 ^ 1024" using assms(5,8) upos by simp
  show ?thesis by (rule round64_eval [OF lo hi assms(3,4) r b])
qed

text \<open>Values that binary64 represents exactly: halves, quarters, eighths and sixteenths.\<close>

lemmas round64_fractions =
  round64_dyadic [of "numeral n" 1, simplified]
  round64_dyadic [of "- numeral n" 1, simplified]
  round64_dyadic [of "numeral n" 2, simplified]
  round64_dyadic [of "- numeral n" 2, simplified]
  round64_dyadic [of "numeral n" 3, simplified]
  round64_dyadic [of "numeral n" 4, simplified]
  round64_dyadic [of 1 1, simplified]
  round64_dyadic [of "- 1" 1, simplified]
  round64_dyadic [of 1 2, simplified]
  for n

lemma sqrt_quarter: "sqrt (1 / 4) = 1 / 2"
  by (simp add: real_sqrt_divide)

text \<open>The definitions and facts that evaluate a call of the detector on concrete data.\<close>

lemmas detector_eval =
  AnomalyDetector_init_def add_data_point_def deque_append_def Let_def
  np_mean_def np_std_def np_sum_small fsub_def window_def
  round64_small round64_fractions sqrt_quarter

text \<open>
  The two roundings of the end-to-end scenario: the standard deviation of the window
  \<^verbatim>\<open>[1,1,1,100]\<close>, and the z-score of 100.
\<close>

lemma scenario_std: "round64 (sqrt (29403 / 16)) = Fin (6033170888936268 / 140737488355328)"
proof -
  have "round64 (sqrt (29403 / 16)) = Fin (of_int 6033170888936268 * (1 / 140737488355328))"
    by (rule round64_sqrt_eval [where e = 5]) (simp_all add: power_int_minus power2_eq_square)
  then show ?thesis by simp
qed

lemma scenario_z: "round64 (79164837199872 / 45705840067699) = Fin (7800463371553962 / 4503599627370496)"
proof -
  have "round64 (79164837199872 / 45705840067699) =
          Fin (of_int 7800463371553962 * (1 / 4503599627370496))"
    by (rule round64_eval [where e = 0]) (simp_all add: round_half_even_def power_int_minus)
  then show ?thesis by simp
qed

lemma scenario_run:
  "add_data_points
     \<lparr>threshold = PyFloat (Fin 2), window_size = 4,
      data_window = \<lparr>items = [], maxlen = 4\<rparr>, anomalies_count = 0\<rparr>
     scenario_values =
     ([Inr False, Inr False, Inr False, Inr False, Inr False, Inr False, Inr False, Inr False,
       Inr False],
      \<lparr>threshold = PyFloat (Fin 2), window_size = 4,
       data_window = \<lparr>items = [PyInt 1, PyInt 1, PyInt 1, PyInt 100], maxlen = 4\<rparr>,
       anomalies_count = 0\<rparr>)"
  by (simp add: scenario_values_def detector_eval scenario_std scenario_z)

text \<open>
  The roundings of a window of three times \<^verbatim>\<open>0.1\<close>: the sum is not three tenths, the
  mean is \<^verbatim>\<open>0.1\<close> plus \<open>2 powi (- 56)\<close>, and every deviation is \<open>- 2 powi (- 56)\<close>.
\<close>

lemma sum_of_three_tenths:
  "round64 (10808639105689191 / 36028797018963968) = Fin (1351079888211149 / 4503599627370496)"
proof -
  have "round64 (10808639105689191 / 36028797018963968) =
          Fin (of_int 5404319552844596 * (1 / 18014398509481984))"
    by (rule round64_eval [where e = "- 2"]) (simp_all add: round_half_even_def power_int_minus)
  then show ?thesis by simp
qed

lemma mean_of_three_tenths:
  "round64 (1351079888211149 / 13510798882111488) = Fin (7205759403792795 / 72057594037927936)"
proof -
  have "round64 (1351079888211149 / 13510798882111488) =
          Fin (of_int 7205759403792795 * (1 / 72057594037927936))"
    by (rule round64_eval [where e = "- 4"]) (simp_all add: round_half_even_def power_int_minus)
  then show ?thesis by simp
qed

lemma sqrt_of_square_deviation:
  "sqrt (1 / 5192296858534827628530496329220096) = 1 / 72057594037927936"
proof -
  have "(1 / 5192296858534827628530496329220096 :: real) = (1 / 72057594037927936)\<^sup>2"
    by (simp add: power2_eq_square)
  then show ?thesis by (simp only: real_sqrt_abs)
qed

lemmas constant_run_values =
  round64_dyadic [of 3602879701896397 55, simplified]
  round64_dyadic [of 3602879701896397 54, simplified]
  round64_dyadic [of "- 1" 56, simplified]
  round64_dyadic [of 1 56, simplified]
  round64_dyadic [of 1 112, simplified]
  round64_dyadic [of 1 111, simplified]
  round64_dyadic [of 3 112, simplified]
  sum_of_three_tenths mean_of_three_tenths sqrt_of_square_deviation

lemma constant_run:
  "add_data_points
     \<lparr>threshold = PyFloat (Fin (1 / 2)), window_size = 3,
      data_window = \<lparr>items = [], maxlen = 3\<rparr>, anomalies_count = 0\<rparr>
     constant_values =
     ([Inr False, Inr False, Inr True],
      \<lparr>threshold = PyFloat (Fin (1 / 2)), window_size = 3,
       data_window =
         \<lparr>items = [PyFloat (Fin one_tenth), PyFloat (Fin one_tenth), PyFloat (Fin one_tenth)],
          maxlen = 3\<rparr>,
       anomalies_count = 1\<rparr>)"
  by (simp add: detector_eval constant_run_values constant_values_def one_tenth_def)

section \<open>Exact windows\<close>





section \<open>A window of eight items\<close>

text \<open>
  Eight items are added as a tree. For eight times \<^verbatim>\<open>0.1\<close> every addition of the tree
  doubles its arguments and is exact: the mean is \<^verbatim>\<open>0.1\<close>, the standard deviation is 0,
  and the test of line 91 makes the call return \<open>False\<close> whatever the threshold is.
\<close>

lemma block_sum_eight:
  "block_sum [a, b, c, d, e, f, g, h] =
     fadd (fadd (fadd a b) (fadd c d)) (fadd (fadd e f) (fadd g h))"
  by (simp add: block_sum_def)

lemma np_sum_eight:
  "np_sum [a, b, c, d, e, f, g, h] =
     fadd (fadd (fadd a b) (fadd c d)) (fadd (fadd e f) (fadd g h))"
  by (simp add: np_sum_block block_sum_eight)

lemmas eight_tenths_values =
  round64_dyadic [of 3602879701896397 55, simplified]
  round64_dyadic [of 3602879701896397 54, simplified]
  round64_dyadic [of 3602879701896397 53, simplified]
  round64_dyadic [of 3602879701896397 52, simplified]

lemma eight_tenths:
  "np_mean (replicate 8 (Fin one_tenth)) = Fin one_tenth \<and>
   np_std (replicate 8 (Fin one_tenth)) = Fin 0 \<and>
   fst (add_data_point
          \<lparr>threshold = PyFloat (Fin (1 / 2)), window_size = 8,
           data_window = \<lparr>items = replicate 7 (PyFloat (Fin one_tenth)), maxlen = 8\<rparr>,
           anomalies_count = 0\<rparr>
          (Num (PyFloat (Fin one_tenth)))) = Inr False"
  by (simp add: numeral_eq_Suc add_data_point_def deque_append_def Let_def np_mean_def np_std_def
      np_sum_eight fsub_def one_tenth_def eight_tenths_values round64_zero)

section \<open>The z-score rule\<close>



section \<open>Warm-up\<close>

text \<open>
  C2. For a detector just built with window size \<open>W\<close> and any sequence of numeric values
  (finite or not, of any magnitude), each of the first \<open>W - 1\<close> calls returns \<open>False\<close>.
\<close>

theorem warm_up_all_false:
  assumes "AnomalyDetector_init thr wsz = Inr d0"
      and "\<forall>v \<in> set vs. is_numeric v"
  shows "positive_integer wsz \<and> 0 < window_size d0 \<and>
         take (nat (window_size d0 - 1)) (fst (add_data_points d0 vs)) =
           replicate (min (length vs) (nat (window_size d0 - 1))) (Inr False)"
proof -
  let ?k = "nat (window_size d0 - 1)"
  have inv: "window_inv d0" and emp: "window d0 = []"
    using assms(1) by (simp_all add: init_cases)
  have pos: "0 < window_size d0" using inv by (simp add: window_inv_def)
  have num: "\<forall>v \<in> set (take ?k vs). is_numeric v"
    using assms(2) by (auto dest: in_set_takeD)
  have short: "int (length (window d0)) + int (length (take ?k vs)) < window_size d0"
    using pos emp by simp
  have "take ?k (fst (add_data_points d0 vs)) = fst (add_data_points d0 (take ?k vs))"
    by (rule take_add_data_points)
  also have "\<dots> = replicate (length (take ?k vs)) (Inr False)"
    by (rule warm_up_run [OF inv num short])
  finally have run: "take ?k (fst (add_data_points d0 vs)) =
      replicate (min (length vs) ?k) (Inr False)" by simp
  have "positive_integer wsz"
    using assms(1)
    by (cases wsz rule: positive_integer.cases)
       (auto simp: AnomalyDetector_init_def split: option.splits if_splits)
  with pos run show ?thesis by simp
qed

theorem warm_up_all_false_witness:
  "AnomalyDetector_init (Num (PyInt 0)) (Num (PyInt 4)) =
     Inr \<lparr>threshold = PyInt 0, window_size = 4,
          data_window = \<lparr>items = [], maxlen = 4\<rparr>, anomalies_count = 0\<rparr> \<and>
   take 3 (fst (add_data_points
     \<lparr>threshold = PyInt 0, window_size = 4,
      data_window = \<lparr>items = [], maxlen = 4\<rparr>, anomalies_count = 0\<rparr>
     [Num (PyInt 1), Num (PyFloat (Fin 1000000)), Num (PyFloat PInf), Num (PyInt 5),
      Num (PyInt 6)])) =
     [Inr False, Inr False, Inr False]"
proof -
  let ?a = "\<lparr>threshold = PyInt 0, window_size = 4,
             data_window = \<lparr>items = [], maxlen = 4\<rparr>, anomalies_count = 0\<rparr>"
  let ?vs = "[Num (PyInt 1), Num (PyFloat (Fin 1000000)), Num (PyFloat PInf), Num (PyInt 5),
      Num (PyInt 6)]"
  have i: "AnomalyDetector_init (Num (PyInt 0)) (Num (PyInt 4)) = Inr ?a"
    by (simp add: detector_eval)
  have n: "\<forall>v \<in> set ?vs. is_numeric v" by simp
  have k: "nat (window_size ?a - 1) = 3" by simp
  have "replicate (min (length ?vs) 3) (Inr False :: py_error + bool) = [Inr False, Inr False, Inr False]"
    by (simp add: numeral_3_eq_3)
  then show ?thesis using i warm_up_all_false [OF i n] unfolding k by simp
qed

section \<open>A window of identical values\<close>

text \<open>
  The test of line 91: whenever the standard deviation that \<^verbatim>\<open>np.std\<close> computes for
  the window is exactly zero, the call returns \<open>False\<close>; it does not raise.
\<close>

lemma zero_std_is_not_anomaly:
  assumes "add_data_point self (Num v) = (r, self')"
      and "feq0 (np_std (map float_of (window self')))"
  shows "r = Inr False"
proof -
  have "r = fst (add_data_point self (Num v))"
    and "self' = snd (add_data_point self (Num v))"
    using assms(1) by simp_all
  with assms(2) show ?thesis
    by (simp add: degenerate_std_is_not_anomaly)
qed

lemma zero_std_is_not_anomaly_witness:
  "add_data_point
     \<lparr>threshold = PyInt 0, window_size = 2,
      data_window = \<lparr>items = [PyInt 1, PyInt 1000], maxlen = 2\<rparr>, anomalies_count = 0\<rparr>
     (Num (PyFloat (Fin 1000))) =
     (Inr False,
      \<lparr>threshold = PyInt 0, window_size = 2,
       data_window = \<lparr>items = [PyInt 1000, PyFloat (Fin 1000)], maxlen = 2\<rparr>,
       anomalies_count = 0\<rparr>) \<and>
   feq0 (np_std (map float_of [PyInt 1000, PyFloat (Fin 1000)]))"
proof -
  let ?a = "\<lparr>threshold = PyInt 0, window_size = 2,
      data_window = \<lparr>items = [PyInt 1, PyInt 1000], maxlen = 2\<rparr>, anomalies_count = 0\<rparr>"
  let ?b = "\<lparr>threshold = PyInt 0, window_size = 2,
       data_window = \<lparr>items = [PyInt 1000, PyFloat (Fin 1000)], maxlen = 2\<rparr>,
       anomalies_count = 0\<rparr>"
  have s: "add_data_point ?a (Num (PyFloat (Fin 1000))) =
             (fst (add_data_point ?a (Num (PyFloat (Fin 1000)))), ?b)"
    by (simp add: detector_eval)
  have z: "feq0 (np_std (map float_of (window ?b)))" by (simp add: detector_eval)
  show ?thesis
    using s z zero_std_is_not_anomaly [OF s z] by (simp add: window_def)
qed

text \<open>
  C3. A detector with \<^verbatim>\<open>threshold=0.5\<close> and \<^verbatim>\<open>window_size=3\<close> is fed \<^verbatim>\<open>0.1\<close> three times.
  The third call finds a full window of identical values, yet the standard deviation
  that \<^verbatim>\<open>np.std\<close> computes is \<open>2 powi (- 56)\<close>, not zero: the sum of the three values is
  rounded, so the mean is not \<^verbatim>\<open>0.1\<close>. The test of line 91 does not apply, the z-score
  of the value is \<open>- 1\<close>, and the call returns \<open>True\<close>.
\<close>

theorem constant_window_is_flagged:
  "fresh_run (Num (PyFloat (Fin (1 / 2)))) (Num (PyInt 3)) constant_values =
     Inr ([Inr False, Inr False, Inr True],
          \<lparr>threshold = PyFloat (Fin (1 / 2)), window_size = 3,
           data_window =
             \<lparr>items = [PyFloat (Fin one_tenth), PyFloat (Fin one_tenth),
                       PyFloat (Fin one_tenth)],
              maxlen = 3\<rparr>,
           anomalies_count = 1\<rparr>)"
  by (simp add: fresh_run_def AnomalyDetector_init_def constant_run)

section \<open>The anomaly counter\<close>

text \<open>
  C4. A fresh detector starts with \<open>anomalies_count = 0\<close>. After any sequence of calls the
  counter equals the number of calls that returned \<open>True\<close>; a single call adds exactly 1
  when it returns \<open>True\<close> and nothing otherwise (a call that raises included); and the
  counter of a later state is never below that of an earlier one.
\<close>

theorem count_matches_true_results:
  assumes "AnomalyDetector_init thr wsz = Inr d0"
      and "add_data_points d0 vs = (rs, d)"
      and "add_data_point d v = (r, d1)"
      and "add_data_points d ws = (rs', d')"
  shows "anomalies_count d0 = 0 \<and>
         anomalies_count d = int (count_list rs (Inr True)) \<and>
         anomalies_count d1 = anomalies_count d + (if r = Inr True then 1 else 0) \<and>
         anomalies_count d \<le> anomalies_count d'"
proof -
  have "anomalies_count d0 = 0" using assms(1) by (simp add: init_cases)
  moreover have "anomalies_count d = anomalies_count d0 + int (count_list rs (Inr True))"
    using add_data_points_count [of d0 vs] assms(2) by simp
  moreover have "anomalies_count d1 = anomalies_count d + (if r = Inr True then 1 else 0)"
    using add_data_point_count [of d v] assms(3) by simp
  moreover have "anomalies_count d' = anomalies_count d + int (count_list rs' (Inr True))"
    using add_data_points_count [of d ws] assms(4) by simp
  ultimately show ?thesis by simp
qed

theorem count_matches_true_results_witness:
  "AnomalyDetector_init (Num (PyFloat (Fin (1/2)))) (Num (PyInt 2)) =
     Inr \<lparr>threshold = PyFloat (Fin (1/2)), window_size = 2,
          data_window = \<lparr>items = [], maxlen = 2\<rparr>, anomalies_count = 0\<rparr> \<and>
   add_data_points
     \<lparr>threshold = PyFloat (Fin (1/2)), window_size = 2,
      data_window = \<lparr>items = [], maxlen = 2\<rparr>, anomalies_count = 0\<rparr>
     [Num (PyInt 0), Num (PyInt 2)] =
     ([Inr False, Inr True],
      \<lparr>threshold = PyFloat (Fin (1/2)), window_size = 2,
       data_window = \<lparr>items = [PyInt 0, PyInt 2], maxlen = 2\<rparr>, anomalies_count = 1\<rparr>) \<and>
   anomalies_count
     \<lparr>threshold = PyFloat (Fin (1/2)), window_size = 2,
      data_window = \<lparr>items = [PyInt 0, PyInt 2], maxlen = 2\<rparr>, anomalies_count = 1\<rparr> =
     int (count_list [Inr False, Inr True :: py_error + bool] (Inr True))"
proof -
  let ?a = "\<lparr>threshold = PyFloat (Fin (1/2)), window_size = 2,
              data_window = \<lparr>items = [], maxlen = 2\<rparr>, anomalies_count = 0\<rparr>"
  let ?b = "\<lparr>threshold = PyFloat (Fin (1/2)), window_size = 2,
             data_window = \<lparr>items = [PyInt 0, PyInt 2], maxlen = 2\<rparr>, anomalies_count = 1\<rparr>"
  have i: "AnomalyDetector_init (Num (PyFloat (Fin (1/2)))) (Num (PyInt 2)) = Inr ?a"
    by (simp add: detector_eval)
  have r: "add_data_points ?a [Num (PyInt 0), Num (PyInt 2)] = ([Inr False, Inr True], ?b)"
    by (simp add: detector_eval)
  have s: "add_data_point ?b (PyStr ''x'') =
             (Inl (ValueError ''Data point must be a numeric value.''), ?b)"
    by (simp add: detector_eval)
  have e: "add_data_points ?b [] = ([], ?b)" by simp
  show ?thesis using i r count_matches_true_results [OF i r s e] by simp
qed

section \<open>The end-to-end scenario\<close>

text \<open>
  C5, as the specification states it, fails: the run does not end with \<open>True\<close> and a
  counter of 1. The last call returns \<open>False\<close> and the counter stays at 0.
\<close>

theorem scenario_expects_anomaly_counterexample:
  "fresh_run (Num (PyFloat (Fin 2))) (Num (PyInt 4)) scenario_values \<noteq>
     Inr ([Inr False, Inr False, Inr False, Inr False, Inr False, Inr False, Inr False,
           Inr False, Inr True],
          \<lparr>threshold = PyFloat (Fin 2), window_size = 4,
           data_window = \<lparr>items = [PyInt 1, PyInt 1, PyInt 1, PyInt 100], maxlen = 4\<rparr>,
           anomalies_count = 1\<rparr>) \<and>
   last (fst (add_data_points
     \<lparr>threshold = PyFloat (Fin 2), window_size = 4,
      data_window = \<lparr>items = [], maxlen = 4\<rparr>, anomalies_count = 0\<rparr>
     scenario_values)) = Inr False \<and>
   anomalies_count (snd (add_data_points
     \<lparr>threshold = PyFloat (Fin 2), window_size = 4,
      data_window = \<lparr>items = [], maxlen = 4\<rparr>, anomalies_count = 0\<rparr>
     scenario_values)) = 0"
  by (simp add: fresh_run_def AnomalyDetector_init_def scenario_run)

text \<open>
  C5, amended. With \<^verbatim>\<open>window_size=4\<close> and \<^verbatim>\<open>threshold=2.0\<close>, the sequence
  \<^verbatim>\<open>[1,1,1,1,1,1,1,1,100]\<close> fed to a fresh detector gives \<open>False\<close> nine times: three
  times for the warm-up, five times for a constant window, and once for the value 100,
  whose window \<^verbatim>\<open>[1,1,1,100]\<close> has mean 25.75 and gives it a z-score of about 1.73
  (the square root of 3, rounded), below 2. The counter is 0 after the run.
\<close>

theorem scenario_final_value_is_normal:
  "fresh_run (Num (PyFloat (Fin 2))) (Num (PyInt 4)) scenario_values =
     Inr ([Inr False, Inr False, Inr False, Inr False, Inr False, Inr False, Inr False,
           Inr False, Inr False],
          \<lparr>threshold = PyFloat (Fin 2), window_size = 4,
           data_window = \<lparr>items = [PyInt 1, PyInt 1, PyInt 1, PyInt 100], maxlen = 4\<rparr>,
           anomalies_count = 0\<rparr>)"
  by (simp add: fresh_run_def AnomalyDetector_init_def scenario_run)

section \<open>Construction\<close>

text \<open>
  What the constructor does with every pair of arguments: it raises \<^verbatim>\<open>ValueError\<close> when
  the threshold is not an instance of \<^verbatim>\<open>int\<close> or \<^verbatim>\<open>float\<close>, and when the window size is
  not an \<^verbatim>\<open>int\<close> greater than zero; otherwise the detector keeps the threshold and the
  window size as given, its window is empty with the window size as capacity, and its
  counter is 0.
\<close>

lemma constructor_outcomes:
  "(\<not> int_or_float thr \<longrightarrow>
      AnomalyDetector_init thr wsz = Inl (ValueError ''Threshold must be a numeric value.'')) \<and>
   (int_or_float thr \<and> \<not> positive_integer wsz \<longrightarrow>
      AnomalyDetector_init thr wsz = Inl (ValueError ''Window size must be a positive integer.'')) \<and>
   (int_or_float thr \<and> positive_integer wsz \<longrightarrow>
      (\<exists>t w. thr = Num t \<and> wsz = Num w \<and> 0 < int_value w \<and>
         AnomalyDetector_init thr wsz =
           Inr \<lparr>threshold = t, window_size = int_value w,
                data_window = \<lparr>items = [], maxlen = int_value w\<rparr>,
                anomalies_count = 0\<rparr>))"
  using init_reject_threshold [of thr wsz] init_reject_window_size [of thr wsz]
        init_accepts [of thr wsz]
  by blast

text \<open>
  C6. The constructor refuses a numeric threshold. \<^verbatim>\<open>np.int64(3)\<close> is a number, and
  the detector itself takes it for one: as a data point it passes the test of line 78,
  which names \<^verbatim>\<open>np.number\<close>. As a threshold, with the positive integer 30 as window
  size, it fails the test of line 57, which names \<^verbatim>\<open>int\<close> and \<^verbatim>\<open>float\<close> only, and the
  constructor raises \<^verbatim>\<open>ValueError\<close>: no detector is built. The \<^verbatim>\<open>int\<close> 3 with the same
  window size gives the detector that the specification describes.
\<close>

theorem numpy_threshold_is_refused:
  "is_numeric (Num (NpInt 3)) \<and> positive_integer (Num (PyInt 30)) \<and>
   AnomalyDetector_init (Num (NpInt 3)) (Num (PyInt 30)) =
     Inl (ValueError ''Threshold must be a numeric value.'') \<and>
   AnomalyDetector_init (Num (PyInt 3)) (Num (PyInt 30)) =
     Inr \<lparr>threshold = PyInt 3, window_size = 30,
          data_window = \<lparr>items = [], maxlen = 30\<rparr>, anomalies_count = 0\<rparr> \<and>
   add_data_point
     \<lparr>threshold = PyInt 3, window_size = 30,
      data_window = \<lparr>items = [], maxlen = 30\<rparr>, anomalies_count = 0\<rparr>
     (Num (NpInt 3)) =
     (Inr False,
      \<lparr>threshold = PyInt 3, window_size = 30,
       data_window = \<lparr>items = [NpInt 3], maxlen = 30\<rparr>, anomalies_count = 0\<rparr>)"
  by (simp add: AnomalyDetector_init_def add_data_point_def deque_append_def Let_def)

section \<open>The type test of a data point\<close>

text \<open>
  C7, as the specification states it, fails: a NaN is not a finite numeric value, yet the
  call does not raise and returns \<open>False\<close>.
\<close>

theorem nan_is_accepted:
  "\<not> finite_numeric (Num (PyFloat NaN)) \<and>
   fst (add_data_point
          \<lparr>threshold = PyInt 3, window_size = 30,
           data_window = \<lparr>items = [], maxlen = 30\<rparr>, anomalies_count = 0\<rparr>
          (Num (PyFloat NaN))) = Inr False"
  by (simp add: detector_eval)

text \<open>
  C7, amended. \<open>add_data_point\<close> raises the \<^verbatim>\<open>ValueError\<close> of the type test if and only
  if the value is not an instance of \<^verbatim>\<open>int\<close>, \<^verbatim>\<open>float\<close> or \<^verbatim>\<open>np.number\<close>; it makes no
  test of finiteness. Every float (NaN and the infinities included), every \<^verbatim>\<open>bool\<close>
  and every integer of Python or numpy within 64 bits gets a boolean, on every detector
  whose threshold and window hold such numbers. In particular every finite value among
  them gets a boolean.
\<close>

theorem type_test_decides_raise:
  "(fst (add_data_point self val) = Inl (ValueError ''Data point must be a numeric value.''))
     = (\<not> is_numeric val) \<and>
   (fst (add_data_point self val) = Inr True \<or> fst (add_data_point self val) = Inr False)
     = is_numeric val \<and>
   (finite_numeric val \<longrightarrow>
      fst (add_data_point self val) = Inr True \<or> fst (add_data_point self val) = Inr False)"
proof (cases val)
  case (Num v)
  with add_data_point_result_cases [of self v] show ?thesis by auto
qed (simp_all add: add_data_point_rejects)

theorem type_test_decides_raise_witness:
  "fst (add_data_point
          \<lparr>threshold = PyInt 3, window_size = 1,
           data_window = \<lparr>items = [], maxlen = 1\<rparr>, anomalies_count = 0\<rparr>
          (Num (PyFloat PInf))) = Inr False \<and>
   fst (add_data_point
          \<lparr>threshold = PyInt 3, window_size = 1,
           data_window = \<lparr>items = [], maxlen = 1\<rparr>, anomalies_count = 0\<rparr>
          (Num (PyInt 5))) = Inr False \<and>
   fst (add_data_point
          \<lparr>threshold = PyInt 3, window_size = 1,
           data_window = \<lparr>items = [], maxlen = 1\<rparr>, anomalies_count = 0\<rparr>
          PyNone) = Inl (ValueError ''Data point must be a numeric value.'')"
proof -
  let ?a = "\<lparr>threshold = PyInt 3, window_size = 1,
             data_window = \<lparr>items = [], maxlen = 1\<rparr>, anomalies_count = 0\<rparr>"
  have "fst (add_data_point ?a (Num (PyFloat PInf))) \<noteq> Inr True"
    by (simp add: detector_eval)
  moreover have "fst (add_data_point ?a (Num (PyInt 5))) \<noteq> Inr True"
    by (simp add: detector_eval)
  ultimately show ?thesis
    using type_test_decides_raise [of ?a "Num (PyFloat PInf)"]
          type_test_decides_raise [of ?a "Num (PyInt 5)"]
          type_test_decides_raise [of ?a PyNone]
    by simp
qed

section \<open>Reports of the stream loop\<close>

text \<open>
  C8. The loop does not report an item that the detector rejected, and the exception of
  the report leaves \<^verbatim>\<open>update\<close>. On the column vector, which passes lines 117 and 119,
  the first frame takes the row \<^verbatim>\<open>array([1.])\<close>: \<open>add_data_point\<close> raises \<^verbatim>\<open>ValueError\<close>
  and leaves the detector as it was, the \<^verbatim>\<open>try\<close> statement catches it and sets
  \<^verbatim>\<open>is_anomaly = False\<close>; then the format \<^verbatim>\<open>.2f\<close> of the line to print (line 149, outside
  the \<^verbatim>\<open>try\<close>) raises \<^verbatim>\<open>TypeError\<close>. Nothing has been printed for the item, and the axis
  and the counter text are as before the frame.
\<close>

theorem update_raises_on_rejected_item:
  "length column_vector = 3 \<and>
   column_vector ! 0 = NdArray [Fin 1] \<and>
   add_data_point
     \<lparr>threshold = PyInt 3, window_size = 30,
      data_window = \<lparr>items = [], maxlen = 30\<rparr>, anomalies_count = 0\<rparr>
     (NdArray [Fin 1]) =
     (Inl (ValueError ''Data point must be a numeric value.''),
      \<lparr>threshold = PyInt 3, window_size = 30,
       data_window = \<lparr>items = [], maxlen = 30\<rparr>, anomalies_count = 0\<rparr>) \<and>
   update column_vector
     (first_frame_state column_vector
        \<lparr>threshold = PyInt 3, window_size = 30,
         data_window = \<lparr>items = [], maxlen = 30\<rparr>, anomalies_count = 0\<rparr>) 0 =
     (Some (TypeError ''unsupported format string passed to numpy.ndarray.__format__''),
      \<lparr>data = [NdArray [Fin 1]], anomaly_indices = [],
       detector = \<lparr>threshold = PyInt 3, window_size = 30,
                   data_window = \<lparr>items = [], maxlen = 30\<rparr>, anomalies_count = 0\<rparr>,
       printed = [], xlim = (0, 3), anomaly_count_text = None, stopped = False\<rparr>)"
  by (simp add: column_vector_def first_frame_state_def update_def add_data_point_def Let_def)

section \<open>The sliding window\<close>

text \<open>
  C9. For a detector built by the constructor, in every state reached by calls of
  \<open>add_data_point\<close> and after one more call (accepted or rejected): the capacity is
  positive and is the one given at construction, the window holds at most that many
  values, an accepted value is appended at the right and, when the window was full, the
  oldest value (the leftmost) is the one dropped, a rejected value leaves the window as
  it was, and a window that was full is full again after the call.
\<close>

theorem window_bounded_fifo:
  assumes "AnomalyDetector_init thr wsz = Inr d0"
      and "add_data_points d0 vs = (rs, d)"
      and "add_data_point d val = (r, d')"
  shows "0 < window_size d0 \<and> window_size d = window_size d0 \<and> window_size d' = window_size d0 \<and>
         maxlen (data_window d) = window_size d0 \<and> maxlen (data_window d') = window_size d0 \<and>
         int (length (window d)) \<le> window_size d \<and>
         int (length (window d')) \<le> window_size d' \<and>
         window d' =
           (case val of
              Num v \<Rightarrow> if int (length (window d)) = window_size d
                       then tl (window d) @ [v] else window d @ [v]
            | _ \<Rightarrow> window d) \<and>
         (int (length (window d)) = window_size d \<longrightarrow>
            int (length (window d')) = window_size d')"
proof -
  have inv0: "window_inv d0" using assms(1) by (simp add: init_cases)
  have d: "d = snd (add_data_points d0 vs)" using assms(2) by simp
  have d': "d' = snd (add_data_point d val)" using assms(3) by simp
  have inv: "window_inv d" unfolding d by (rule add_data_points_inv [OF inv0])
  have inv': "window_inv d'" unfolding d' by (rule add_data_point_inv [OF inv])
  have ws: "window_size d = window_size d0" unfolding d by (rule add_data_points_frame)
  have ws': "window_size d' = window_size d" unfolding d' by (rule add_data_point_frame)
  have fifo: "window d' =
           (case val of
              Num v \<Rightarrow> if int (length (window d)) = window_size d
                       then tl (window d) @ [v] else window d @ [v]
            | _ \<Rightarrow> window d)"
    unfolding d' using window_step [OF inv]
    by (cases val) (simp_all add: add_data_point_rejects)
  have full: "int (length (window d)) = window_size d \<longrightarrow>
            int (length (window d')) = window_size d'"
    unfolding d' using window_length_step [OF inv] ws'
    by (cases val) (simp_all add: add_data_point_rejects add_data_point_frame)
  show ?thesis
    using inv0 inv inv' ws ws' fifo full by (simp add: window_inv_def)
qed

theorem window_bounded_fifo_witness:
  "AnomalyDetector_init (Num (PyInt 3)) (Num (PyInt 2)) =
     Inr \<lparr>threshold = PyInt 3, window_size = 2,
          data_window = \<lparr>items = [], maxlen = 2\<rparr>, anomalies_count = 0\<rparr> \<and>
   add_data_points
     \<lparr>threshold = PyInt 3, window_size = 2,
      data_window = \<lparr>items = [], maxlen = 2\<rparr>, anomalies_count = 0\<rparr>
     [Num (PyInt 7), Num (PyInt 8)] =
     ([Inr False, Inr False],
      \<lparr>threshold = PyInt 3, window_size = 2,
       data_window = \<lparr>items = [PyInt 7, PyInt 8], maxlen = 2\<rparr>, anomalies_count = 0\<rparr>) \<and>
   add_data_point
     \<lparr>threshold = PyInt 3, window_size = 2,
      data_window = \<lparr>items = [PyInt 7, PyInt 8], maxlen = 2\<rparr>, anomalies_count = 0\<rparr>
     (Num (PyInt 9)) =
     (Inr False,
      \<lparr>threshold = PyInt 3, window_size = 2,
       data_window = \<lparr>items = [PyInt 8, PyInt 9], maxlen = 2\<rparr>, anomalies_count = 0\<rparr>) \<and>
   window
     \<lparr>threshold = PyInt 3, window_size = 2,
      data_window = \<lparr>items = [PyInt 8, PyInt 9], maxlen = 2\<rparr>, anomalies_count = 0\<rparr> =
     tl [PyInt 7, PyInt 8] @ [PyInt 9] \<and>
   int (length (window
     \<lparr>threshold = PyInt 3, window_size = 2,
      data_window = \<lparr>items = [PyInt 8, PyInt 9], maxlen = 2\<rparr>, anomalies_count = 0\<rparr>)) = 2"
proof -
  let ?a = "\<lparr>threshold = PyInt 3, window_size = 2,
             data_window = \<lparr>items = [], maxlen = 2\<rparr>, anomalies_count = 0\<rparr>"
  let ?b = "\<lparr>threshold = PyInt 3, window_size = 2,
             data_window = \<lparr>items = [PyInt 7, PyInt 8], maxlen = 2\<rparr>, anomalies_count = 0\<rparr>"
  let ?c = "\<lparr>threshold = PyInt 3, window_size = 2,
             data_window = \<lparr>items = [PyInt 8, PyInt 9], maxlen = 2\<rparr>, anomalies_count = 0\<rparr>"
  have i: "AnomalyDetector_init (Num (PyInt 3)) (Num (PyInt 2)) = Inr ?a"
    by (simp add: detector_eval)
  have r: "add_data_points ?a [Num (PyInt 7), Num (PyInt 8)] = ([Inr False, Inr False], ?b)"
    by (simp add: detector_eval)
  have s: "add_data_point ?b (Num (PyInt 9)) = (Inr False, ?c)"
    by (simp add: detector_eval)
  show ?thesis using i r s window_bounded_fifo [OF i r s] by (simp add: window_def)
qed

section \<open>Rejected values\<close>

text \<open>
  C10. When \<open>add_data_point\<close> raises, the detector is left exactly as it was: the value
  is not appended, the window and the counter are those of before. The only exception is
  the \<^verbatim>\<open>ValueError\<close> of the type test, which precedes every mutation.
\<close>

theorem rejected_call_leaves_state:
  assumes "fst (add_data_point self val) = Inl e"
  shows "snd (add_data_point self val) = self \<and>
         window (snd (add_data_point self val)) = window self \<and>
         anomalies_count (snd (add_data_point self val)) = anomalies_count self \<and>
         \<not> is_numeric val \<and>
         e = ValueError ''Data point must be a numeric value.''"
proof (cases "is_numeric val")
  case True
  then obtain v where "val = Num v" by (cases val) simp_all
  with assms add_data_point_result_cases [of self v] show ?thesis by auto
next
  case False
  with assms show ?thesis by (simp add: add_data_point_rejects)
qed

theorem rejected_call_leaves_state_witness:
  "fst (add_data_point
          \<lparr>threshold = PyInt 3, window_size = 2,
           data_window = \<lparr>items = [PyInt 5], maxlen = 2\<rparr>, anomalies_count = 0\<rparr>
          (PyStr ''abc'')) = Inl (ValueError ''Data point must be a numeric value.'') \<and>
   snd (add_data_point
          \<lparr>threshold = PyInt 3, window_size = 2,
           data_window = \<lparr>items = [PyInt 5], maxlen = 2\<rparr>, anomalies_count = 0\<rparr>
          (PyStr ''abc'')) =
     \<lparr>threshold = PyInt 3, window_size = 2,
      data_window = \<lparr>items = [PyInt 5], maxlen = 2\<rparr>, anomalies_count = 0\<rparr>"
proof -
  let ?b = "\<lparr>threshold = PyInt 3, window_size = 2,
             data_window = \<lparr>items = [PyInt 5], maxlen = 2\<rparr>, anomalies_count = 0\<rparr>"
  have h: "fst (add_data_point ?b (PyStr ''abc'')) =
             Inl (ValueError ''Data point must be a numeric value.'')"
    by (simp add: add_data_point_def)
  show ?thesis using h rejected_call_leaves_state [OF h] by simp
qed

end
